theory Spec2Isabelle
  imports Main "HOL-Library.Sublist"
begin

section \<open>ProcessUtils (src/web/src/server/pty/process-utils.ts)\<close>

text \<open>
  A shallow embedding of the static class \<open>ProcessUtils\<close>. Everything the TypeScript
  does besides returning a value is explicit:
  \<^item> the process-wide state (the memo \<open>ProcessUtils._isWSL2\<close>, the constant
    \<open>process.platform\<close>) is the record \<open>pstate\<close>, which also carries the trace of
    every effect performed so far (log lines, spawned utilities, signals, file and
    environment reads, clock reads, sleeps);
  \<^item> the outside world (file system, environment variables, what a spawned utility
    or a signal delivery answers) is the record \<open>env\<close>, an oracle the code can only
    query;
  \<^item> a thrown JavaScript exception is the \<open>Inl\<close> of a sum, and \<open>try\<close>/\<open>catch\<close> is
    the combinator \<open>try_catch\<close>.
\<close>

subsection \<open>Strings\<close>

text \<open>\<open>String.prototype.includes\<close>, \<open>endsWith\<close>, \<open>toLowerCase\<close>, \<open>trim\<close> and
  \<open>Array.prototype.join\<close>. Characters are the 8-bit \<open>char\<close>; the case mapping is
  that of the ASCII letters, which is all the markers searched for contain.\<close>

definition str_includes :: "string \<Rightarrow> string \<Rightarrow> bool" where
  "str_includes s pat = sublist pat s"

definition endsWith :: "string \<Rightarrow> string \<Rightarrow> bool" where
  "endsWith s suf = suffix suf s"

definition lower_char :: "char \<Rightarrow> char" where
  "lower_char c =
     (case map_of (zip ''ABCDEFGHIJKLMNOPQRSTUVWXYZ'' ''abcdefghijklmnopqrstuvwxyz'') c of
        Some l \<Rightarrow> l
      | None \<Rightarrow> c)"

definition toLowerCase :: "string \<Rightarrow> string" where
  "toLowerCase s = map lower_char s"

definition is_space :: "char \<Rightarrow> bool" where
  "is_space c = (c \<in> {CHR 0x09, CHR 0x0A, CHR 0x0B, CHR 0x0C, CHR 0x0D, CHR 0x20, CHR 0xA0})"

definition trim :: "string \<Rightarrow> string" where
  "trim s = rev (dropWhile is_space (rev (dropWhile is_space s)))"

definition dquote :: char where
  "dquote = CHR 0x22"

definition bslash :: char where
  "bslash = CHR 0x5C"

fun join :: "string list \<Rightarrow> string \<Rightarrow> string" where
  "join [] sep = []"
| "join [x] sep = x"
| "join (x # y # ys) sep = x @ sep @ join (y # ys) sep"

text \<open>The plain decimal text of an integer.\<close>

definition digits :: string where
  "digits = ''0123456789''"

definition digit_char :: "nat \<Rightarrow> char" where
  "digit_char d = digits ! d"

fun nat_toString :: "nat \<Rightarrow> string" where
  "nat_toString n =
     (if n < 10 then [digit_char n] else nat_toString (n div 10) @ [digit_char (n mod 10)])"

declare nat_toString.simps [simp del]

definition decimal :: "int \<Rightarrow> string" where
  "decimal i = (if i < 0 then CHR ''-'' # nat_toString (nat (- i)) else nat_toString (nat i))"

subsection \<open>Errors, effects, the world and the process state\<close>

datatype js_error = JsError (err_message: string) (err_code: "string option")

datatype signal = SigName string | SigNum int

datatype level = LOG | WARN | DEBUG

datatype event =
    Logged level string
  | SpawnSync string "string list" nat
  | Kill int signal
  | ExistsSync string
  | ReadFileSync string
  | EnvGet string
  | UserInfo
  | DateNow
  | Sleep nat

text \<open>What \<open>spawnSync\<close> returns: \<open>status\<close> is \<open>null\<close> (\<open>None\<close>) when the child
  was killed or never started; \<open>stdout\<close> may be missing as well.\<close>

record spawn_result =
  status :: "int option"
  stdout :: "string option"

record env =
  exists_file :: "string \<Rightarrow> bool"
  read_file :: "string \<Rightarrow> js_error + string"
  env_var :: "string \<Rightarrow> string option"
  spawn_sync :: "string \<Rightarrow> string list \<Rightarrow> js_error + spawn_result"
  process_kill :: "int \<Rightarrow> signal \<Rightarrow> js_error option"
  os_userInfo :: "js_error + string option"
  path_join :: "string list \<Rightarrow> string"
  exponent_form :: "int \<Rightarrow> string"

text \<open>
  The text of an integer-valued number, as a template literal \<open>`${pid}`\<close> or
  \<open>pid.toString()\<close> produces it: plain decimal below \<open>1e21\<close> in magnitude, and from there
  the exponent form of the runtime (\<open>1e+21\<close>), which depends on the shortest digits of
  the floating-point value and is taken from the world as \<open>exponent_form\<close>.
\<close>

definition num_toString :: "env \<Rightarrow> int \<Rightarrow> string" where
  "num_toString w i = (if \<bar>i\<bar> < 10 ^ 21 then decimal i else exponent_form w i)"

fun signal_toString :: "env \<Rightarrow> signal \<Rightarrow> string" where
  "signal_toString w (SigName n) = n"
| "signal_toString w (SigNum i) = num_toString w i"

record pstate =
  platform :: string
  wsl2_cache :: "bool option"
  trace :: "event list"

type_synonym 'a io = "pstate \<Rightarrow> (js_error + 'a) \<times> pstate"

definition return :: "'a \<Rightarrow> 'a io" where
  "return x = (\<lambda>s. (Inr x, s))"

definition throw :: "js_error \<Rightarrow> 'a io" where
  "throw e = (\<lambda>s. (Inl e, s))"

definition bind :: "'a io \<Rightarrow> ('a \<Rightarrow> 'b io) \<Rightarrow> 'b io" where
  "bind m f = (\<lambda>s. case m s of (Inl e, s') \<Rightarrow> (Inl e, s') | (Inr x, s') \<Rightarrow> f x s')"

definition seq :: "'a io \<Rightarrow> 'b io \<Rightarrow> 'b io" where
  "seq m k = bind m (\<lambda>_. k)"

definition try_catch :: "'a io \<Rightarrow> (js_error \<Rightarrow> 'a io) \<Rightarrow> 'a io" where
  "try_catch m h = (\<lambda>s. case m s of (Inl e, s') \<Rightarrow> h e s' | (Inr x, s') \<Rightarrow> (Inr x, s'))"

definition emit :: "event \<Rightarrow> unit io" where
  "emit ev = (\<lambda>s. (Inr (), s\<lparr>trace := trace s @ [ev]\<rparr>))"

definition logger :: "level \<Rightarrow> string \<Rightarrow> unit io" where
  "logger l msg = emit (Logged l msg)"

definition process_platform :: "string io" where
  "process_platform = (\<lambda>s. (Inr (platform s), s))"

definition set_isWSL2 :: "bool \<Rightarrow> unit io" where
  "set_isWSL2 b = (\<lambda>s. (Inr (), s\<lparr>wsl2_cache := Some b\<rparr>))"

definition existsSync :: "env \<Rightarrow> string \<Rightarrow> bool io" where
  "existsSync w p = seq (emit (ExistsSync p)) (return (exists_file w p))"

definition readFileSync :: "env \<Rightarrow> string \<Rightarrow> string io" where
  "readFileSync w p =
     seq (emit (ReadFileSync p))
       (case read_file w p of Inl e \<Rightarrow> throw e | Inr txt \<Rightarrow> return txt)"

text \<open>\<open>process.env[name]\<close>: \<open>None\<close> is \<open>undefined\<close>.\<close>

definition process_env :: "env \<Rightarrow> string \<Rightarrow> string option io" where
  "process_env w name = seq (emit (EnvGet name)) (return (env_var w name))"

text \<open>Truthiness of a \<open>string | undefined\<close> value: set and not empty.\<close>

fun truthy :: "string option \<Rightarrow> bool" where
  "truthy None = False"
| "truthy (Some v) = (v \<noteq> [])"

definition spawnSync :: "env \<Rightarrow> string \<Rightarrow> string list \<Rightarrow> nat \<Rightarrow> spawn_result io" where
  "spawnSync w cmd args timeout =
     seq (emit (SpawnSync cmd args timeout))
       (case spawn_sync w cmd args of Inl e \<Rightarrow> throw e | Inr r \<Rightarrow> return r)"

definition kill :: "env \<Rightarrow> int \<Rightarrow> signal \<Rightarrow> unit io" where
  "kill w pid sig =
     seq (emit (Kill pid sig))
       (case process_kill w pid sig of Some e \<Rightarrow> throw e | None \<Rightarrow> return ())"

subsection \<open>isWSL2 and getPlatformType\<close>

text \<open>\<open>wslEnvVars.some((envVar) => process.env[envVar])\<close>: stops at the first
  truthy variable.\<close>

fun some_env :: "env \<Rightarrow> string list \<Rightarrow> bool io" where
  "some_env w [] = return False"
| "some_env w (v # vs) =
     bind (process_env w v) (\<lambda>x. if truthy x then return True else some_env w vs)"

definition wslEnvVars :: "string list" where
  "wslEnvVars = [''WSL_DISTRO_NAME'', ''WSL_INTEROP'', ''WSLENV'']"

text \<open>Lines 62-77: the environment-variable fallback.\<close>

definition isWSL2_envFallback :: "env \<Rightarrow> bool io" where
  "isWSL2_envFallback w =
     bind (some_env w wslEnvVars) (\<lambda>hasWSLEnv.
       if hasWSLEnv then
         seq (logger LOG ''WSL environment detected via environment variables'')
        (seq (logger WARN ''Unable to confirm WSL2 - this may be WSL1 which is not supported'')
        (seq (set_isWSL2 False)
             (return False)))
       else seq (set_isWSL2 False) (return False))"

text \<open>Lines 34-77: the body of the \<open>try\<close>.\<close>

definition isWSL2_probe :: "env \<Rightarrow> bool io" where
  "isWSL2_probe w =
     bind process_platform (\<lambda>p.
       if p \<noteq> ''linux'' then seq (set_isWSL2 False) (return False)
       else
         bind (existsSync w ''/proc/version'') (\<lambda>ex.
           if ex then
             bind (readFileSync w ''/proc/version'') (\<lambda>raw.
               let versionContent = toLowerCase raw;
                   isWSL = (str_includes versionContent ''microsoft'' \<or> str_includes versionContent ''wsl'');
                   isWSL2 = str_includes versionContent ''wsl2''
               in
                 if isWSL \<and> isWSL2 then
                   seq (set_isWSL2 True)
                  (seq (logger LOG ''WSL2 environment detected'')
                       (return True))
                 else if isWSL \<and> \<not> isWSL2 then
                   seq (set_isWSL2 False)
                  (seq (logger WARN ''WSL1 detected - WSL1 is not supported. Please upgrade to WSL2.'')
                  (seq (logger WARN (''Run '' @ [dquote] @ ''wsl --set-version <distro> 2'' @ [dquote] @ '' to upgrade to WSL2''))
                       (return False)))
                 else isWSL2_envFallback w)
           else isWSL2_envFallback w))"

definition isWSL2 :: "env \<Rightarrow> bool io" where
  "isWSL2 w = (\<lambda>s.
     case wsl2_cache s of
       Some b \<Rightarrow> (Inr b, s)
     | None \<Rightarrow>
         try_catch (isWSL2_probe w)
           (\<lambda>error.
              seq (logger WARN (''Failed to detect WSL2 environment: '' @ err_message error))
             (seq (set_isWSL2 False)
                  (return False))) s)"

definition getPlatformType :: "env \<Rightarrow> string io" where
  "getPlatformType w =
     bind (isWSL2 w) (\<lambda>b. if b then return ''wsl2'' else process_platform)"

subsection \<open>Liveness\<close>

definition bool_toString :: "bool \<Rightarrow> string" where
  "bool_toString b = (if b then ''true'' else ''false'')"

definition status_toString :: "env \<Rightarrow> int option \<Rightarrow> string" where
  "status_toString w st = (case st of None \<Rightarrow> ''null'' | Some i \<Rightarrow> num_toString w i)"

definition isProcessRunningWindows :: "env \<Rightarrow> int \<Rightarrow> bool io" where
  "isProcessRunningWindows w pid =
     try_catch
       (seq (logger DEBUG (''checking windows process '' @ num_toString w pid @ '' with tasklist''))
       (bind (spawnSync w ''tasklist''
                [''/FI'', ''PID eq '' @ num_toString w pid, ''/NH'', ''/FO'', ''CSV''] 5000)
          (\<lambda>result.
             if status result = Some 0 \<and> truthy (stdout result) then
               (let exists = str_includes (case stdout result of Some out \<Rightarrow> out | None \<Rightarrow> [])
                                          ([dquote] @ num_toString w pid @ [dquote])
                in seq (logger DEBUG (''process '' @ num_toString w pid @ '' exists: ''
                                        @ bool_toString exists))
                       (return exists))
             else
               seq (logger DEBUG (''tasklist command failed with status ''
                                    @ status_toString w (status result)))
                   (return False))))
       (\<lambda>error.
          seq (logger WARN (''windows process check failed for PID '' @ num_toString w pid
                              @ '': '' @ err_message error))
              (return False))"

definition isProcessRunningUnix :: "env \<Rightarrow> int \<Rightarrow> bool io" where
  "isProcessRunningUnix w pid =
     try_catch
       (seq (kill w pid (SigNum 0)) (return True))
       (\<lambda>err. if err_code err = Some ''EPERM'' then return True else return False)"

definition isProcessRunning :: "env \<Rightarrow> int \<Rightarrow> bool io" where
  "isProcessRunning w pid =
     (if pid = 0 \<or> pid \<le> 0 then return False
      else
        try_catch
          (bind (getPlatformType w) (\<lambda>platformType.
             if platformType = ''win32'' then isProcessRunningWindows w pid
             else isProcessRunningUnix w pid))
          (\<lambda>error.
             seq (logger WARN (''error checking if process '' @ num_toString w pid
                                 @ '' is running: '' @ err_message error))
                 (return False)))"

record process_info =
  info_pid :: int
  info_exists :: bool

definition getProcessInfo :: "env \<Rightarrow> int \<Rightarrow> process_info option io" where
  "getProcessInfo w pid =
     bind (isProcessRunning w pid) (\<lambda>running.
       if \<not> running then return None
       else return (Some \<lparr>info_pid = pid, info_exists = True\<rparr>))"

subsection \<open>Termination\<close>

definition killProcess :: "env \<Rightarrow> int \<Rightarrow> signal \<Rightarrow> bool io" where
  "killProcess w pid sig =
     (if pid = 0 \<or> pid \<le> 0 then return False
      else
        seq (logger DEBUG (''attempting to kill process '' @ num_toString w pid
                             @ '' with signal '' @ signal_toString w sig))
        (try_catch
          (bind process_platform (\<lambda>p.
             if p = ''win32'' then
               bind (spawnSync w ''taskkill'' [''/PID'', num_toString w pid, ''/F''] 5000)
                 (\<lambda>result.
                    if status result = Some 0 then
                      seq (logger LOG (''process '' @ num_toString w pid @ '' killed successfully''))
                          (return True)
                    else
                      seq (logger DEBUG (''taskkill failed with status ''
                                           @ status_toString w (status result)))
                          (return False))
             else
               seq (kill w pid sig)
              (seq (logger LOG (''signal '' @ signal_toString w sig @ '' sent to process ''
                                  @ num_toString w pid))
                   (return True))))
          (\<lambda>error.
             seq (logger WARN (''error killing process '' @ num_toString w pid @ '': ''
                                 @ err_message error))
                 (return False))))"

text \<open>
  \<open>waitForProcessExit\<close> is the one asynchronous function: between two polls the event
  loop runs and the world changes. The world is therefore a sequence: the \<open>k\<close>-th poll
  (from 0) sees \<open>world k\<close>, and \<open>world 0\<close> is the world at the call. \<open>Date.now()\<close> is
  not monotonic and is read several times, so the clock is a sequence as well: the
  \<open>c\<close>-th reading made by one call (from 0, the reading of \<open>startTime\<close>) is \<open>clock c\<close>.
  The loop need not end (a clock that stands still and a process that stays alive), so
  it is a partial function: \<open>None\<close> is a promise that never resolves.
\<close>

definition date_now :: "int \<Rightarrow> int io" where
  "date_now reading = seq (emit DateNow) (return reading)"

definition sleep :: "nat \<Rightarrow> unit io" where
  "sleep ms = emit (Sleep ms)"

definition checkInterval :: nat where
  "checkInterval = 100"

partial_function (option) waitLoop ::
  "(nat \<Rightarrow> int) \<Rightarrow> (nat \<Rightarrow> env) \<Rightarrow> int \<Rightarrow> int \<Rightarrow> int \<Rightarrow> nat \<Rightarrow> nat \<Rightarrow> pstate
     \<Rightarrow> ((js_error + bool) \<times> pstate) option"
where
  "waitLoop clock world pid timeoutMs startTime k c s =
     (case date_now (clock c) s of
        (Inl e, s1) \<Rightarrow> Some (Inl e, s1)
      | (Inr t, s1) \<Rightarrow>
          if t - startTime < timeoutMs then
            (case isProcessRunning (world k) pid s1 of
               (Inl e, s2) \<Rightarrow> Some (Inl e, s2)
             | (Inr running, s2) \<Rightarrow>
                 if \<not> running then
                   Some (bind (date_now (clock (Suc c))) (\<lambda>t'.
                           seq (logger LOG (''process '' @ num_toString (world k) pid @ '' exited after ''
                                              @ num_toString (world k) (t' - startTime) @ ''ms''))
                               (return True)) s2)
                 else
                   (case sleep checkInterval s2 of
                      (Inl e, s3) \<Rightarrow> Some (Inl e, s3)
                    | (Inr _, s3) \<Rightarrow>
                        waitLoop clock world pid timeoutMs startTime (Suc k) (Suc c) s3))
          else
            Some (seq (logger LOG (''process '' @ num_toString (world k) pid @ '' did not exit within ''
                                     @ num_toString (world k) timeoutMs @ ''ms timeout''))
                      (return False) s1))"

definition waitForProcessExit ::
  "(nat \<Rightarrow> int) \<Rightarrow> (nat \<Rightarrow> env) \<Rightarrow> int \<Rightarrow> int \<Rightarrow> pstate
     \<Rightarrow> ((js_error + bool) \<times> pstate) option"
where
  "waitForProcessExit clock world pid timeoutMs s =
     (case date_now (clock 0) s of
        (Inl e, s1) \<Rightarrow> Some (Inl e, s1)
      | (Inr startTime, s1) \<Rightarrow>
          (case logger DEBUG (''waiting for process '' @ num_toString (world 0) pid
                                @ '' to exit (timeout: '' @ num_toString (world 0) timeoutMs @ ''ms)'') s1 of
             (Inl e, s2) \<Rightarrow> Some (Inl e, s2)
           | (Inr _, s2) \<Rightarrow> waitLoop clock world pid timeoutMs startTime 0 1 s2))"

subsection \<open>Shell discovery\<close>

text \<open>\<open>a || b\<close> on a \<open>string | undefined\<close>.\<close>

fun or_else :: "string option \<Rightarrow> string \<Rightarrow> string" where
  "or_else None d = d"
| "or_else (Some v) d = (if v = [] then d else v)"

text \<open>One probe of a candidate: \<open>try { if (spawnSync(...).status === 0) return ... } catch (_) {}\<close>.\<close>

definition probe_ok :: "env \<Rightarrow> string \<Rightarrow> string list \<Rightarrow> nat \<Rightarrow> bool io" where
  "probe_ok w cmd args timeout =
     try_catch
       (bind (spawnSync w cmd args timeout) (\<lambda>result. return (status result = Some 0)))
       (\<lambda>_. return False)"

text \<open>The \<open>for\<close> loop over \<open>gitBashPaths\<close> (lines 434-447).\<close>

fun gitBash_loop :: "env \<Rightarrow> string list \<Rightarrow> string option io" where
  "gitBash_loop w [] = return None"
| "gitBash_loop w (gitBashPath # rest) =
     bind (probe_ok w gitBashPath [''-c'', ''echo test''] 1000) (\<lambda>ok.
       if ok then return (Some gitBashPath) else gitBash_loop w rest)"

text \<open>The \<open>for\<close> loop over \<open>commonShells\<close> (lines 470-483).\<close>

fun commonShells_loop :: "env \<Rightarrow> string list \<Rightarrow> string option io" where
  "commonShells_loop w [] = return None"
| "commonShells_loop w (shell # rest) =
     bind (probe_ok w ''test'' [''-x'', shell] 500) (\<lambda>ok.
       if ok then return (Some shell) else commonShells_loop w rest)"

definition userInfo_shell :: "env \<Rightarrow> string option io" where
  "userInfo_shell w =
     try_catch
       (seq (emit UserInfo)
            (case os_userInfo w of
               Inl e \<Rightarrow> throw e
             | Inr sh \<Rightarrow> return (if truthy sh then sh else None)))
       (\<lambda>_. return None)"

definition programFilesGit :: string where
  "programFilesGit = ''C:'' @ [bslash] @ ''Program Files'' @ [bslash] @ ''Git'' @ [bslash]
                       @ ''bin'' @ [bslash] @ ''bash.exe''"

definition programFilesX86Git :: string where
  "programFilesX86Git = ''C:'' @ [bslash] @ ''Program Files (x86)'' @ [bslash] @ ''Git'' @ [bslash]
                          @ ''bin'' @ [bslash] @ ''bash.exe''"

text \<open>Lines 390-450: the Windows search.\<close>

definition getUserShell_win32 :: "env \<Rightarrow> string io" where
  "getUserShell_win32 w =
     bind (probe_ok w ''pwsh'' [''-Command'', ''echo test''] 1000) (\<lambda>ok1.
       if ok1 then return ''pwsh''
       else
         bind (process_env w ''SystemRoot'') (\<lambda>systemRoot.
           let powershellPath =
                 path_join w [or_else systemRoot (''C:'' @ [bslash] @ ''Windows''), ''System32'',
                              ''WindowsPowerShell'', ''v1.0'', ''powershell.exe'']
           in
             bind (probe_ok w powershellPath [''-Command'', ''echo test''] 1000) (\<lambda>ok2.
               if ok2 then return powershellPath
               else
                 bind (process_env w ''ProgramFiles'') (\<lambda>programFiles.
                   let gitBashPaths =
                         [programFilesGit, programFilesX86Git,
                          path_join w [or_else programFiles (''C:'' @ [bslash] @ ''Program Files''),
                                       ''Git'', ''bin'', ''bash.exe'']]
                   in
                     bind (gitBash_loop w gitBashPaths) (\<lambda>r.
                       case r of
                         Some gitBashPath \<Rightarrow> return gitBashPath
                       | None \<Rightarrow>
                           bind (process_env w ''ComSpec'') (\<lambda>comSpec.
                             return (or_else comSpec ''cmd.exe'')))))))"

text \<open>Lines 451-486: the Unix search.\<close>

definition getUserShell_unix :: "env \<Rightarrow> string \<Rightarrow> string io" where
  "getUserShell_unix w platformType =
     bind (userInfo_shell w) (\<lambda>u.
       case u of
         Some shell \<Rightarrow> return shell
       | None \<Rightarrow>
           (let commonShells =
                  (if platformType = ''wsl2''
                   then [''/bin/bash'', ''/bin/zsh'', ''/usr/bin/bash'', ''/usr/bin/zsh'', ''/bin/sh'']
                   else [''/bin/zsh'', ''/bin/bash'', ''/usr/bin/zsh'', ''/usr/bin/bash'', ''/bin/sh''])
            in bind (commonShells_loop w commonShells) (\<lambda>r.
                 case r of Some shell \<Rightarrow> return shell | None \<Rightarrow> return ''/bin/sh'')))"

text \<open>\<open>if (process.env.SHELL) return process.env.SHELL\<close> reads the variable twice.\<close>

definition getUserShell :: "env \<Rightarrow> string io" where
  "getUserShell w =
     bind (process_env w ''SHELL'') (\<lambda>sh.
       if truthy sh then
         bind (process_env w ''SHELL'') (\<lambda>sh'. return (case sh' of Some v \<Rightarrow> v | None \<Rightarrow> []))
       else
         bind (getPlatformType w) (\<lambda>platformType.
           if platformType = ''win32'' then getUserShell_win32 w
           else if platformType = ''wsl2'' \<or> platformType = ''linux'' \<or> platformType = ''darwin''
           then getUserShell_unix w platformType
           else return ''/bin/sh''))"

subsection \<open>Command resolution\<close>

definition shells :: "string list" where
  "shells = [''bash'', ''zsh'', ''sh'', ''fish'', ''dash'', ''ksh'', ''tcsh'', ''csh'']"

definition interactiveFlags :: "string list" where
  "interactiveFlags = [''-i'', ''--interactive'', ''-l'', ''--login'']"

definition isInteractiveShellCommand :: "string \<Rightarrow> string list \<Rightarrow> bool" where
  "isInteractiveShellCommand cmdName args =
     (let isShell = list_ex (\<lambda>shell. cmdName = shell \<or> endsWith cmdName (''/'' @ shell)) shells
      in if \<not> isShell then False
         else if length args = 0 then True
         else list_ex (\<lambda>arg. arg \<in> set interactiveFlags) args)"

record plan =
  plan_command :: string
  plan_args :: "string list"
  plan_useShell :: bool

text \<open>Lines 279-297: the lookup on the search path, inside its \<open>try\<close>.\<close>

definition foundInPath :: "env \<Rightarrow> string \<Rightarrow> string \<Rightarrow> bool io" where
  "foundInPath w whichCommand cmdName =
     try_catch
       (bind (spawnSync w whichCommand [cmdName] 2000) (\<lambda>result.
          case stdout result of
            Some out \<Rightarrow>
              if status result = Some 0 \<and> out \<noteq> [] \<and> trim out \<noteq> [] then
                seq (logger DEBUG (''Command '' @ [CHR 0x27] @ cmdName @ [CHR 0x27]
                                     @ '' found at: '' @ trim out))
                    (return True)
              else return False
          | None \<Rightarrow> return False))
       (\<lambda>error.
          seq (logger DEBUG (''Failed to check command existence for '' @ [CHR 0x27] @ cmdName
                               @ [CHR 0x27] @ '': '' @ err_message error))
              (return False))"

text \<open>Lines 299-374: the plan once the lookup has not found the command.\<close>

definition shellPlan :: "env \<Rightarrow> string list \<Rightarrow> string \<Rightarrow> string list \<Rightarrow> plan io" where
  "shellPlan w command cmdName cmdArgs =
     seq (logger DEBUG (''Command '' @ [CHR 0x27] @ cmdName @ [CHR 0x27]
                          @ '' not found in PATH, will use shell''))
    (bind (getUserShell w) (\<lambda>userShell.
       let isCommand = \<not> isInteractiveShellCommand cmdName cmdArgs in
       bind (getPlatformType w) (\<lambda>platformType.
         if platformType = ''win32'' then
           (if str_includes userShell ''bash'' then
              (if isCommand then
                 return \<lparr>plan_command = userShell, plan_args = [''-c'', join command '' ''],
                         plan_useShell = True\<rparr>
               else
                 return \<lparr>plan_command = userShell, plan_args = [''-i'', ''-c'', join command '' ''],
                         plan_useShell = True\<rparr>)
            else if str_includes userShell ''pwsh'' \<or> str_includes userShell ''powershell'' then
              return \<lparr>plan_command = userShell,
                      plan_args = [''-NoLogo'', ''-Command'', join command '' ''],
                      plan_useShell = True\<rparr>
            else
              return \<lparr>plan_command = userShell, plan_args = [''/C'', join command '' ''],
                      plan_useShell = True\<rparr>)
         else if platformType = ''wsl2'' \<or> platformType = ''linux'' \<or> platformType = ''darwin'' then
           (if isCommand then
              return \<lparr>plan_command = userShell, plan_args = [''-c'', join command '' ''],
                      plan_useShell = True\<rparr>
            else
              return \<lparr>plan_command = userShell, plan_args = [''-i'', ''-c'', join command '' ''],
                      plan_useShell = True\<rparr>)
         else
           return \<lparr>plan_command = cmdName, plan_args = cmdArgs, plan_useShell = False\<rparr>)))"

definition resolveCommand :: "env \<Rightarrow> string list \<Rightarrow> plan io" where
  "resolveCommand w command =
     (case command of
        [] \<Rightarrow> throw (JsError ''No command provided'' None)
      | cmdName # cmdArgs \<Rightarrow>
          bind process_platform (\<lambda>p.
            let whichCommand = (if p = ''win32'' then ''where'' else ''which'') in
            bind (foundInPath w whichCommand cmdName) (\<lambda>found.
              if found then
                return \<lparr>plan_command = cmdName, plan_args = cmdArgs, plan_useShell = False\<rparr>
              else shellPlan w command cmdName cmdArgs)))"

section \<open>Auxiliary definitions\<close>

text \<open>
  Two properties of a computation, used throughout. \<open>no_throw m\<close>: \<open>m\<close> returns normally
  from every state. \<open>frame m\<close>: \<open>m\<close> leaves \<open>process.platform\<close> alone, only ever appends
  to the trace, never sleeps, and neither its result nor what it appends depends on the
  trace it started with.
\<close>

definition no_throw :: "'a io \<Rightarrow> bool" where
  "no_throw m = (\<forall>s. \<exists>x s'. m s = (Inr x, s'))"

definition frame :: "'a io \<Rightarrow> bool" where
  "frame m = (\<forall>s. \<exists>r c evs. (\<forall>ms. Sleep ms \<notin> set evs) \<and>
       (\<forall>t. m (s\<lparr>trace := t\<rparr>) = (r, s\<lparr>wsl2_cache := c, trace := t @ evs\<rparr>)))"

text \<open>\<open>keeps_detection w m\<close>: after \<open>m\<close>, WSL2 detection in the world \<open>w\<close> answers what it
  would have answered before.\<close>

definition keeps_detection :: "env \<Rightarrow> 'a io \<Rightarrow> bool" where
  "keeps_detection w m = (\<forall>s. fst (isWSL2 w (snd (m s))) = fst (isWSL2 w s))"

text \<open>A quiet world for concrete runs: no files, no variables, every utility exits
  with status 1, every signal fails with ESRCH.\<close>

definition esrch :: js_error where
  "esrch = JsError ''kill ESRCH'' (Some ''ESRCH'')"

definition eperm :: js_error where
  "eperm = JsError ''kill EPERM'' (Some ''EPERM'')"

definition quiet_env :: env where
  "quiet_env =
     \<lparr>exists_file = (\<lambda>_. False),
      read_file = (\<lambda>_. Inl (JsError ''ENOENT: no such file or directory'' (Some ''ENOENT''))),
      env_var = (\<lambda>_. None),
      spawn_sync = (\<lambda>_ _. Inr \<lparr>status = Some 1, stdout = Some []\<rparr>),
      process_kill = (\<lambda>_ _. Some esrch),
      os_userInfo = Inr None,
      path_join = (\<lambda>ps. join ps ''/''),
      exponent_form = (\<lambda>_. ''1e+21'')\<rparr>"

definition fresh :: "string \<Rightarrow> pstate" where
  "fresh p = \<lparr>platform = p, wsl2_cache = None, trace = []\<rparr>"

text \<open>The calls of one process in sequence, each against the world of its moment.\<close>

fun getPlatformType_calls :: "env list \<Rightarrow> pstate \<Rightarrow> (js_error + string) list \<times> pstate" where
  "getPlatformType_calls [] s = ([], s)"
| "getPlatformType_calls (w # ws) s =
     (case getPlatformType w s of (r, s') \<Rightarrow>
        (case getPlatformType_calls ws s' of (rs, s'') \<Rightarrow> (r # rs, s'')))"



text \<open>Worlds that differ from the quiet one in a single answer.\<close>

definition proc_version_env :: "string \<Rightarrow> env" where
  "proc_version_env txt =
     quiet_env\<lparr>exists_file := (\<lambda>p. p = ''/proc/version''),
               read_file := (\<lambda>p. if p = ''/proc/version'' then Inr txt
                                 else Inl (JsError ''ENOENT: no such file or directory'' (Some ''ENOENT'')))\<rparr>"

definition bash_on_path :: env where
  "bash_on_path =
     quiet_env\<lparr>spawn_sync := (\<lambda>c a.
        if c = ''which'' \<and> a = [''bash'']
        then Inr \<lparr>status = Some 0, stdout = Some (''/usr/bin/bash'' @ [CHR 0x0A])\<rparr>
        else Inr \<lparr>status = Some 1, stdout = Some []\<rparr>)\<rparr>"

definition pwsh_env :: env where
  "pwsh_env =
     quiet_env\<lparr>spawn_sync := (\<lambda>c a.
        if c = ''pwsh'' then Inr \<lparr>status = Some 0, stdout = Some ''test''\<rparr>
        else Inr \<lparr>status = Some 1, stdout = Some []\<rparr>)\<rparr>"

definition shell_var_env :: "string \<Rightarrow> env" where
  "shell_var_env sh = quiet_env\<lparr>env_var := (\<lambda>n. if n = ''SHELL'' then Some sh else None)\<rparr>"



text \<open>A clock that stands still and a world that never changes.\<close>

definition still_clock :: "nat \<Rightarrow> int" where
  "still_clock c = 1000"

definition still_world :: "nat \<Rightarrow> env" where
  "still_world k = quiet_env"

section \<open>Lemmas\<close>

subsection \<open>The combinators\<close>

lemma frameI:
  assumes "\<And>s. \<exists>r c evs. (\<forall>ms. Sleep ms \<notin> set evs) \<and>
             (\<forall>t. m (s\<lparr>trace := t\<rparr>) = (r, s\<lparr>wsl2_cache := c, trace := t @ evs\<rparr>))"
  shows "frame m"
  using assms by (simp add: frame_def)

lemma frameD:
  assumes "frame m"
  shows "\<exists>r c evs. (\<forall>ms. Sleep ms \<notin> set evs) \<and>
           (\<forall>t. m (s\<lparr>trace := t\<rparr>) = (r, s\<lparr>wsl2_cache := c, trace := t @ evs\<rparr>))"
  using assms unfolding frame_def by blast

lemma frame_by:
  assumes "\<And>s t. m (s\<lparr>trace := t\<rparr>) = (r s, s\<lparr>wsl2_cache := c s, trace := t @ evs s\<rparr>)"
    and "\<And>s ms. Sleep ms \<notin> set (evs s)"
  shows "frame m"
proof (rule frameI)
  fix s
  from assms have "(\<forall>ms. Sleep ms \<notin> set (evs s)) \<and>
      (\<forall>t. m (s\<lparr>trace := t\<rparr>) = (r s, s\<lparr>wsl2_cache := c s, trace := t @ evs s\<rparr>))"
    by simp
  then show "\<exists>r c evs. (\<forall>ms. Sleep ms \<notin> set evs) \<and>
      (\<forall>t. m (s\<lparr>trace := t\<rparr>) = (r, s\<lparr>wsl2_cache := c, trace := t @ evs\<rparr>))"
    by blast
qed

lemma frame_return: "frame (return x)"
  by (rule frame_by [where r = "\<lambda>_. Inr x" and c = wsl2_cache and evs = "\<lambda>_. []"])
    (simp_all add: return_def)

lemma frame_throw: "frame (throw e)"
  by (rule frame_by [where r = "\<lambda>_. Inl e" and c = wsl2_cache and evs = "\<lambda>_. []"])
    (simp_all add: throw_def)

lemma frame_emit: "(\<And>ms. ev \<noteq> Sleep ms) \<Longrightarrow> frame (emit ev)"
  by (rule frame_by [where r = "\<lambda>_. Inr ()" and c = wsl2_cache and evs = "\<lambda>_. [ev]"])
    (auto simp: emit_def)

lemma frame_logger: "frame (logger l msg)"
  by (simp add: logger_def frame_emit)

lemma frame_set_isWSL2: "frame (set_isWSL2 b)"
  by (rule frame_by [where r = "\<lambda>_. Inr ()" and c = "\<lambda>_. Some b" and evs = "\<lambda>_. []"])
    (simp_all add: set_isWSL2_def)

lemma frame_process_platform: "frame process_platform"
  by (rule frame_by [where r = "\<lambda>s. Inr (platform s)" and c = wsl2_cache and evs = "\<lambda>_. []"])
    (simp_all add: process_platform_def)

text \<open>Sequencing: the events of the two halves are appended.\<close>

lemma frame_then:
  assumes m: "frame m"
    and k: "\<And>x. frame (f x)" and h: "\<And>e. frame (g e)"
  shows "frame (\<lambda>s. case m s of (Inl e, s') \<Rightarrow> g e s' | (Inr x, s') \<Rightarrow> f x s')"
proof (rule frameI)
  fix s :: pstate
  from frameD [OF m, of s] obtain r c evs where
    S: "\<And>ms. Sleep ms \<notin> set evs" and
    M: "\<And>t. m (s\<lparr>trace := t\<rparr>) = (r, s\<lparr>wsl2_cache := c, trace := t @ evs\<rparr>)"
    by blast
  let ?n = "\<lambda>s. case m s of (Inl e, s') \<Rightarrow> g e s' | (Inr x, s') \<Rightarrow> f x s'"
  have "frame (case r of Inl e \<Rightarrow> g e | Inr x \<Rightarrow> f x)"
    using k h by (cases r) simp_all
  from frameD [OF this, of "s\<lparr>wsl2_cache := c\<rparr>"] obtain r' c' evs' where
    S': "\<And>ms. Sleep ms \<notin> set evs'" and
    F: "\<And>t. (case r of Inl e \<Rightarrow> g e | Inr x \<Rightarrow> f x) (s\<lparr>wsl2_cache := c\<rparr>\<lparr>trace := t\<rparr>)
            = (r', s\<lparr>wsl2_cache := c\<rparr>\<lparr>wsl2_cache := c', trace := t @ evs'\<rparr>)"
    by blast
  have "\<forall>t. ?n (s\<lparr>trace := t\<rparr>) = (r', s\<lparr>wsl2_cache := c', trace := t @ (evs @ evs')\<rparr>)"
  proof
    fix t
    from F [of "t @ evs"] show "?n (s\<lparr>trace := t\<rparr>) = (r', s\<lparr>wsl2_cache := c', trace := t @ (evs @ evs')\<rparr>)"
      by (cases r) (simp_all add: M)
  qed
  moreover from S S' have "\<forall>ms. Sleep ms \<notin> set (evs @ evs')" by simp
  ultimately show "\<exists>r c evs. (\<forall>ms. Sleep ms \<notin> set evs) \<and>
      (\<forall>t. ?n (s\<lparr>trace := t\<rparr>) = (r, s\<lparr>wsl2_cache := c, trace := t @ evs\<rparr>))"
    by blast
qed

lemma frame_bind:
  assumes "frame m" and "\<And>x. frame (f x)"
  shows "frame (bind m f)"
proof -
  have "bind m f = (\<lambda>s. case m s of (Inl e, s') \<Rightarrow> throw e s' | (Inr x, s') \<Rightarrow> f x s')"
    by (auto simp: bind_def throw_def fun_eq_iff split: prod.splits sum.splits)
  moreover have "frame (\<lambda>s. case m s of (Inl e, s') \<Rightarrow> throw e s' | (Inr x, s') \<Rightarrow> f x s')"
    by (rule frame_then [OF assms(1)]) (rule assms(2), rule frame_throw)
  ultimately show ?thesis by simp
qed

lemma frame_seq: "frame m \<Longrightarrow> frame k \<Longrightarrow> frame (seq m k)"
  by (simp add: seq_def frame_bind)

lemma frame_try_catch:
  assumes "frame m" and "\<And>e. frame (h e)"
  shows "frame (try_catch m h)"
proof -
  have "try_catch m h = (\<lambda>s. case m s of (Inl e, s') \<Rightarrow> h e s' | (Inr x, s') \<Rightarrow> return x s')"
    by (auto simp: try_catch_def return_def fun_eq_iff split: prod.splits sum.splits)
  moreover have "frame (\<lambda>s. case m s of (Inl e, s') \<Rightarrow> h e s' | (Inr x, s') \<Rightarrow> return x s')"
    by (rule frame_then [OF assms(1)]) (rule frame_return, rule assms(2))
  ultimately show ?thesis by simp
qed

lemma no_throw_return: "no_throw (return x)"
  by (simp add: no_throw_def return_def)

lemma no_throw_emit: "no_throw (emit ev)"
  by (simp add: no_throw_def emit_def)

lemma no_throw_logger: "no_throw (logger l msg)"
  by (simp add: logger_def no_throw_emit)

lemma no_throw_set_isWSL2: "no_throw (set_isWSL2 b)"
  by (simp add: no_throw_def set_isWSL2_def)

lemma no_throw_process_platform: "no_throw process_platform"
  by (simp add: no_throw_def process_platform_def)

lemma no_throw_bind: "no_throw m \<Longrightarrow> (\<And>x. no_throw (f x)) \<Longrightarrow> no_throw (bind m f)"
  unfolding no_throw_def bind_def
  by (metis (mono_tags, lifting) old.prod.case old.sum.simps(6))

lemma no_throw_seq: "no_throw m \<Longrightarrow> no_throw k \<Longrightarrow> no_throw (seq m k)"
  by (simp add: seq_def no_throw_bind)

lemma no_throw_try_catch: "(\<And>e. no_throw (h e)) \<Longrightarrow> no_throw (try_catch m h)"
  unfolding no_throw_def try_catch_def
  by (auto split: prod.splits sum.splits)

lemmas frame_intros =
  frame_return frame_throw frame_emit frame_logger frame_set_isWSL2 frame_process_platform
  frame_bind frame_seq frame_try_catch

lemmas no_throw_intros =
  no_throw_return no_throw_emit no_throw_logger no_throw_set_isWSL2 no_throw_process_platform
  no_throw_bind no_throw_seq no_throw_try_catch

lemma frame_existsSync: "frame (existsSync w p)"
  by (simp add: existsSync_def frame_intros)

lemma frame_readFileSync: "frame (readFileSync w p)"
  by (auto simp: readFileSync_def intro!: frame_intros split: sum.splits)

lemma frame_process_env: "frame (process_env w n)"
  by (simp add: process_env_def frame_intros)

lemma frame_spawnSync: "frame (spawnSync w c a t)"
  by (auto simp: spawnSync_def intro!: frame_intros split: sum.splits)

lemma frame_kill: "frame (kill w p sg)"
  by (auto simp: kill_def intro!: frame_intros split: option.splits)

lemma no_throw_existsSync: "no_throw (existsSync w p)"
  by (simp add: existsSync_def no_throw_intros)

lemma no_throw_process_env: "no_throw (process_env w n)"
  by (simp add: process_env_def no_throw_intros)

lemma frame_some_env: "frame (some_env w vs)"
  by (induction vs) (auto intro!: frame_intros frame_process_env)

lemma no_throw_some_env: "no_throw (some_env w vs)"
  by (induction vs) (auto intro!: no_throw_intros no_throw_process_env)

lemma frame_isWSL2_envFallback: "frame (isWSL2_envFallback w)"
  by (auto simp: isWSL2_envFallback_def intro!: frame_intros frame_some_env)

lemma no_throw_isWSL2_envFallback: "no_throw (isWSL2_envFallback w)"
  by (auto simp: isWSL2_envFallback_def intro!: no_throw_intros no_throw_some_env)

lemma frame_isWSL2_probe: "frame (isWSL2_probe w)"
  by (auto simp: isWSL2_probe_def Let_def
      intro!: frame_intros frame_existsSync frame_readFileSync frame_isWSL2_envFallback)

lemma frame_isWSL2: "frame (isWSL2 w)"
proof (rule frameI)
  fix s :: pstate
  let ?h = "\<lambda>error. seq (logger WARN (''Failed to detect WSL2 environment: '' @ err_message error))
             (seq (set_isWSL2 False) (return False))"
  show "\<exists>r c evs. (\<forall>ms. Sleep ms \<notin> set evs) \<and>
      (\<forall>t. isWSL2 w (s\<lparr>trace := t\<rparr>) = (r, s\<lparr>wsl2_cache := c, trace := t @ evs\<rparr>))"
  proof (cases "wsl2_cache s")
    case (Some b)
    then have "(\<forall>ms. Sleep ms \<notin> set []) \<and>
        (\<forall>t. isWSL2 w (s\<lparr>trace := t\<rparr>) = (Inr b, s\<lparr>wsl2_cache := Some b, trace := t @ []\<rparr>))"
      by (simp add: isWSL2_def)
    then show ?thesis by blast
  next
    case None
    have "frame (try_catch (isWSL2_probe w) ?h)"
      by (intro frame_intros frame_isWSL2_probe)
    from frameD [OF this, of s] obtain r c evs where "\<And>ms. Sleep ms \<notin> set evs" and
      "\<And>t. try_catch (isWSL2_probe w) ?h (s\<lparr>trace := t\<rparr>)
             = (r, s\<lparr>wsl2_cache := c, trace := t @ evs\<rparr>)"
      by blast
    with None have "(\<forall>ms. Sleep ms \<notin> set evs) \<and>
        (\<forall>t. isWSL2 w (s\<lparr>trace := t\<rparr>) = (r, s\<lparr>wsl2_cache := c, trace := t @ evs\<rparr>))"
      by (simp add: isWSL2_def)
    then show ?thesis by blast
  qed
qed

lemma no_throw_isWSL2: "no_throw (isWSL2 w)"
proof -
  let ?h = "\<lambda>error. seq (logger WARN (''Failed to detect WSL2 environment: '' @ err_message error))
             (seq (set_isWSL2 False) (return False))"
  have "no_throw (try_catch (isWSL2_probe w) ?h)"
    by (intro no_throw_intros)
  then show ?thesis
    unfolding no_throw_def isWSL2_def by (auto split: option.splits)
qed

lemma frame_getPlatformType: "frame (getPlatformType w)"
  by (auto simp: getPlatformType_def intro!: frame_intros frame_isWSL2)

lemma no_throw_getPlatformType: "no_throw (getPlatformType w)"
  by (auto simp: getPlatformType_def intro!: no_throw_intros no_throw_isWSL2)

lemma frame_isProcessRunningWindows: "frame (isProcessRunningWindows w pid)"
  by (auto simp: isProcessRunningWindows_def Let_def intro!: frame_intros frame_spawnSync)

lemma no_throw_isProcessRunningWindows: "no_throw (isProcessRunningWindows w pid)"
  by (auto simp: isProcessRunningWindows_def intro!: no_throw_intros)

lemma frame_isProcessRunningUnix: "frame (isProcessRunningUnix w pid)"
  by (auto simp: isProcessRunningUnix_def intro!: frame_intros frame_kill)

lemma no_throw_isProcessRunningUnix: "no_throw (isProcessRunningUnix w pid)"
  by (auto simp: isProcessRunningUnix_def intro!: no_throw_intros)

lemma frame_isProcessRunning: "frame (isProcessRunning w pid)"
  by (auto simp: isProcessRunning_def intro!: frame_intros frame_getPlatformType
      frame_isProcessRunningWindows frame_isProcessRunningUnix)

lemma no_throw_isProcessRunning: "no_throw (isProcessRunning w pid)"
  by (auto simp: isProcessRunning_def intro!: no_throw_intros)

lemma frame_probe_ok: "frame (probe_ok w c a t)"
  by (auto simp: probe_ok_def intro!: frame_intros frame_spawnSync)

lemma no_throw_probe_ok: "no_throw (probe_ok w c a t)"
  by (auto simp: probe_ok_def intro!: no_throw_intros)

lemma frame_gitBash_loop: "frame (gitBash_loop w ps)"
  by (induction ps) (auto intro!: frame_intros frame_probe_ok)

lemma no_throw_gitBash_loop: "no_throw (gitBash_loop w ps)"
  by (induction ps) (auto intro!: no_throw_intros no_throw_probe_ok)

lemma frame_commonShells_loop: "frame (commonShells_loop w ps)"
  by (induction ps) (auto intro!: frame_intros frame_probe_ok)

lemma no_throw_commonShells_loop: "no_throw (commonShells_loop w ps)"
  by (induction ps) (auto intro!: no_throw_intros no_throw_probe_ok)

lemma frame_userInfo_shell: "frame (userInfo_shell w)"
  by (auto simp: userInfo_shell_def intro!: frame_intros split: sum.splits)

lemma no_throw_userInfo_shell: "no_throw (userInfo_shell w)"
  by (auto simp: userInfo_shell_def intro!: no_throw_intros)

lemma frame_getUserShell_win32: "frame (getUserShell_win32 w)"
  by (auto simp: getUserShell_win32_def Let_def
      intro!: frame_intros frame_probe_ok frame_process_env frame_gitBash_loop
      split: option.splits)

lemma no_throw_getUserShell_win32: "no_throw (getUserShell_win32 w)"
  by (auto simp: getUserShell_win32_def Let_def
      intro!: no_throw_intros no_throw_probe_ok no_throw_process_env no_throw_gitBash_loop
      split: option.splits)

lemma frame_getUserShell_unix: "frame (getUserShell_unix w pt)"
  by (auto simp: getUserShell_unix_def Let_def
      intro!: frame_intros frame_userInfo_shell frame_commonShells_loop frame_probe_ok
      split: option.splits)

lemma no_throw_getUserShell_unix: "no_throw (getUserShell_unix w pt)"
  by (auto simp: getUserShell_unix_def Let_def
      intro!: no_throw_intros no_throw_userInfo_shell no_throw_commonShells_loop no_throw_probe_ok
      split: option.splits)

lemma frame_getUserShell: "frame (getUserShell w)"
  by (auto simp: getUserShell_def
      intro!: frame_intros frame_process_env frame_getPlatformType
        frame_getUserShell_win32 frame_getUserShell_unix)

lemma no_throw_getUserShell: "no_throw (getUserShell w)"
  by (auto simp: getUserShell_def
      intro!: no_throw_intros no_throw_process_env no_throw_getPlatformType
        no_throw_getUserShell_win32 no_throw_getUserShell_unix)

lemma frame_foundInPath: "frame (foundInPath w wc c)"
  by (auto simp: foundInPath_def intro!: frame_intros frame_spawnSync split: option.splits)

lemma no_throw_foundInPath: "no_throw (foundInPath w wc c)"
  by (auto simp: foundInPath_def intro!: no_throw_intros)

lemma frame_shellPlan: "frame (shellPlan w cmd c a)"
  by (auto simp: shellPlan_def Let_def
      intro!: frame_intros frame_getUserShell frame_getPlatformType)

lemma no_throw_shellPlan: "no_throw (shellPlan w cmd c a)"
  by (auto simp: shellPlan_def Let_def
      intro!: no_throw_intros no_throw_getUserShell no_throw_getPlatformType)

subsection \<open>Consequences\<close>

lemma frame_keeps_platform:
  assumes "frame m" shows "platform (snd (m s)) = platform s"
proof -
  from frameD [OF assms, of s] obtain r c evs where
    "\<And>t. m (s\<lparr>trace := t\<rparr>) = (r, s\<lparr>wsl2_cache := c, trace := t @ evs\<rparr>)"
    by blast
  from this [of "trace s"] show ?thesis by simp
qed

lemma no_throw_result:
  assumes "no_throw m" shows "\<exists>x. fst (m s) = Inr x"
  using assms unfolding no_throw_def by (metis fst_conv)

lemma isWSL2_envFallback_memo:
  "isWSL2_envFallback w s = (Inr b, s') \<Longrightarrow> wsl2_cache s' = Some b"
  by (auto simp: isWSL2_envFallback_def bind_def seq_def set_isWSL2_def return_def logger_def
      emit_def split: prod.splits sum.splits if_splits)

lemma isWSL2_probe_memo:
  "isWSL2_probe w s = (Inr b, s') \<Longrightarrow> wsl2_cache s' = Some b"
  by (auto simp: isWSL2_probe_def bind_def seq_def set_isWSL2_def return_def logger_def
      emit_def process_platform_def existsSync_def readFileSync_def throw_def Let_def
      split: prod.splits sum.splits if_splits dest: isWSL2_envFallback_memo)

lemma isWSL2_memo:
  "\<exists>b s'. isWSL2 w s = (Inr b, s') \<and> wsl2_cache s' = Some b \<and> platform s' = platform s"
proof -
  from no_throw_isWSL2 [of w] obtain b s' where I: "isWSL2 w s = (Inr b, s')"
    unfolding no_throw_def by blast
  have P: "platform s' = platform s"
    using frame_keeps_platform [OF frame_isWSL2, of w s] I by simp
  have "wsl2_cache s' = Some b"
  proof (cases "wsl2_cache s")
    case (Some c)
    with I show ?thesis by (auto simp: isWSL2_def)
  next
    case None
    with I show ?thesis
      by (auto simp: isWSL2_def try_catch_def seq_def bind_def set_isWSL2_def return_def
          logger_def emit_def split: prod.splits sum.splits dest: isWSL2_probe_memo)
  qed
  with I P show ?thesis by blast
qed

lemma getPlatformType_not_win32:
  assumes "platform s \<noteq> ''win32''"
  shows "\<exists>pt s'. getPlatformType w s = (Inr pt, s') \<and> pt \<noteq> ''win32''"
proof -
  from no_throw_isWSL2 [of w] obtain b s1 where I: "isWSL2 w s = (Inr b, s1)"
    unfolding no_throw_def by blast
  have "platform (snd (isWSL2 w s)) = platform s"
    by (rule frame_keeps_platform [OF frame_isWSL2])
  with I have "platform s1 = platform s" by simp
  with I assms show ?thesis
    by (simp add: getPlatformType_def bind_def return_def process_platform_def)
qed

lemma getPlatformType_fixed:
  assumes "getPlatformType w s = (r, s1)"
  shows "getPlatformType w' s1 = (r, s1)"
proof -
  from isWSL2_memo [of w s] obtain b s' where
    I: "isWSL2 w s = (Inr b, s')" and C: "wsl2_cache s' = Some b"
    by blast
  from I assms have s1: "s1 = s'" and r: "r = Inr (if b then ''wsl2'' else platform s')"
    by (auto simp: getPlatformType_def bind_def return_def process_platform_def split: if_splits)
  from C have "isWSL2 w' s' = (Inr b, s')" by (simp add: isWSL2_def)
  then show ?thesis
    unfolding s1 r by (simp add: getPlatformType_def bind_def return_def process_platform_def)
qed

lemma getPlatformType_calls_fixed:
  assumes "\<And>w'. getPlatformType w' s1 = (r, s1)"
  shows "getPlatformType_calls ws s1 = (replicate (length ws) r, s1)"
  by (induction ws) (simp_all add: assms)

subsection \<open>Detection is stable; the shell-routed plan\<close>

lemma frame_ignores_trace:
  assumes "frame m" shows "fst (m (s\<lparr>trace := t\<rparr>)) = fst (m s)"
proof -
  from frameD [OF assms, of s] obtain r c evs where
    M: "\<And>t. m (s\<lparr>trace := t\<rparr>) = (r, s\<lparr>wsl2_cache := c, trace := t @ evs\<rparr>)"
    by blast
  from M [of "trace s"] M [of t] show ?thesis by simp
qed

lemma keeps_return: "keeps_detection w (return x)"
  by (simp add: keeps_detection_def return_def)

lemma keeps_throw: "keeps_detection w (throw e)"
  by (simp add: keeps_detection_def throw_def)

lemma keeps_process_platform: "keeps_detection w process_platform"
  by (simp add: keeps_detection_def process_platform_def)

lemma keeps_emit: "keeps_detection w (emit ev)"
  using frame_ignores_trace [OF frame_isWSL2]
  by (simp add: keeps_detection_def emit_def)

lemma keeps_logger: "keeps_detection w (logger l msg)"
  by (simp add: logger_def keeps_emit)

lemma keeps_bind:
  assumes "keeps_detection w m" and "\<And>x. keeps_detection w (f x)"
  shows "keeps_detection w (bind m f)"
  unfolding keeps_detection_def
proof
  fix s
  obtain r s' where M: "m s = (r, s')" by (cases "m s")
  from assms(1) M have 1: "fst (isWSL2 w s') = fst (isWSL2 w s)"
    unfolding keeps_detection_def by (metis snd_conv)
  show "fst (isWSL2 w (snd (bind m f s))) = fst (isWSL2 w s)"
  proof (cases r)
    case (Inl e)
    with M 1 show ?thesis by (simp add: bind_def)
  next
    case (Inr x)
    from assms(2) [of x] have "fst (isWSL2 w (snd (f x s'))) = fst (isWSL2 w s')"
      unfolding keeps_detection_def by blast
    with M 1 Inr show ?thesis by (simp add: bind_def)
  qed
qed

lemma keeps_seq: "keeps_detection w m \<Longrightarrow> keeps_detection w k \<Longrightarrow> keeps_detection w (seq m k)"
  by (simp add: seq_def keeps_bind)

lemma keeps_try_catch:
  assumes "keeps_detection w m" and "\<And>e. keeps_detection w (h e)"
  shows "keeps_detection w (try_catch m h)"
  unfolding keeps_detection_def
proof
  fix s
  obtain r s' where M: "m s = (r, s')" by (cases "m s")
  from assms(1) M have 1: "fst (isWSL2 w s') = fst (isWSL2 w s)"
    unfolding keeps_detection_def by (metis snd_conv)
  show "fst (isWSL2 w (snd (try_catch m h s))) = fst (isWSL2 w s)"
  proof (cases r)
    case (Inr x)
    with M 1 show ?thesis by (simp add: try_catch_def)
  next
    case (Inl e)
    from assms(2) [of e] have "fst (isWSL2 w (snd (h e s'))) = fst (isWSL2 w s')"
      unfolding keeps_detection_def by blast
    with M 1 Inl show ?thesis by (simp add: try_catch_def)
  qed
qed

lemma keeps_isWSL2: "keeps_detection w (isWSL2 w)"
  unfolding keeps_detection_def
proof
  fix s
  from isWSL2_memo [of w s] obtain b s' where
    I: "isWSL2 w s = (Inr b, s')" and C: "wsl2_cache s' = Some b"
    by blast
  from C have "isWSL2 w s' = (Inr b, s')" by (simp add: isWSL2_def)
  with I show "fst (isWSL2 w (snd (isWSL2 w s))) = fst (isWSL2 w s)" by simp
qed

lemmas keeps_intros =
  keeps_return keeps_throw keeps_process_platform keeps_emit keeps_logger keeps_bind keeps_seq
  keeps_try_catch keeps_isWSL2

lemma keeps_getPlatformType: "keeps_detection w (getPlatformType w)"
  by (auto simp: getPlatformType_def intro!: keeps_intros)

lemma keeps_process_env: "keeps_detection w (process_env w n)"
  by (simp add: process_env_def keeps_intros)

lemma keeps_spawnSync: "keeps_detection w (spawnSync w c a t)"
  by (auto simp: spawnSync_def intro!: keeps_intros split: sum.splits)

lemma keeps_probe_ok: "keeps_detection w (probe_ok w c a t)"
  by (auto simp: probe_ok_def intro!: keeps_intros keeps_spawnSync)

lemma keeps_gitBash_loop: "keeps_detection w (gitBash_loop w ps)"
  by (induction ps) (auto intro!: keeps_intros keeps_probe_ok)

lemma keeps_commonShells_loop: "keeps_detection w (commonShells_loop w ps)"
  by (induction ps) (auto intro!: keeps_intros keeps_probe_ok)

lemma keeps_userInfo_shell: "keeps_detection w (userInfo_shell w)"
  by (auto simp: userInfo_shell_def intro!: keeps_intros split: sum.splits)

lemma keeps_getUserShell_win32: "keeps_detection w (getUserShell_win32 w)"
  by (auto simp: getUserShell_win32_def Let_def
      intro!: keeps_intros keeps_probe_ok keeps_process_env keeps_gitBash_loop
      split: option.splits)

lemma keeps_getUserShell_unix: "keeps_detection w (getUserShell_unix w pt)"
  by (auto simp: getUserShell_unix_def Let_def
      intro!: keeps_intros keeps_userInfo_shell keeps_commonShells_loop keeps_probe_ok
      split: option.splits)

lemma keeps_getUserShell: "keeps_detection w (getUserShell w)"
  by (auto simp: getUserShell_def
      intro!: keeps_intros keeps_process_env keeps_getPlatformType
        keeps_getUserShell_win32 keeps_getUserShell_unix)

lemma getPlatformType_fst:
  "fst (getPlatformType w s) = Inr (if fst (isWSL2 w s) = Inr True then ''wsl2'' else platform s)"
proof -
  from isWSL2_memo [of w s] obtain b s' where
    "isWSL2 w s = (Inr b, s')" and "platform s' = platform s"
    by blast
  then show ?thesis
    by (simp add: getPlatformType_def bind_def return_def process_platform_def)
qed

lemma foundInPath_trace:
  "\<exists>r evs. foundInPath w wc c s = (r, s\<lparr>trace := trace s @ evs\<rparr>)"
  by (auto simp: foundInPath_def try_catch_def bind_def seq_def spawnSync_def emit_def
      logger_def return_def throw_def split: sum.splits option.splits)

lemma shellPlan_result:
  assumes U: "fst (getUserShell w s) = Inr userShell"
    and P: "fst (getPlatformType w s) = Inr platformType"
  shows "fst (shellPlan w command cmdName cmdArgs (s\<lparr>trace := t\<rparr>)) =
     Inr (if platformType = ''win32'' then
            (if str_includes userShell ''bash'' then
               \<lparr>plan_command = userShell,
                plan_args = (if isInteractiveShellCommand cmdName cmdArgs
                             then [''-i'', ''-c'', join command '' '']
                             else [''-c'', join command '' '']),
                plan_useShell = True\<rparr>
             else if str_includes userShell ''pwsh'' \<or> str_includes userShell ''powershell'' then
               \<lparr>plan_command = userShell,
                plan_args = [''-NoLogo'', ''-Command'', join command '' ''],
                plan_useShell = True\<rparr>
             else
               \<lparr>plan_command = userShell, plan_args = [''/C'', join command '' ''],
                plan_useShell = True\<rparr>)
          else if platformType = ''wsl2'' \<or> platformType = ''linux'' \<or> platformType = ''darwin'' then
            \<lparr>plan_command = userShell,
             plan_args = (if isInteractiveShellCommand cmdName cmdArgs
                          then [''-i'', ''-c'', join command '' '']
                          else [''-c'', join command '' '']),
             plan_useShell = True\<rparr>
          else \<lparr>plan_command = cmdName, plan_args = cmdArgs, plan_useShell = False\<rparr>)"
proof -
  let ?msg = "''Command '' @ [CHR 0x27] @ cmdName @ [CHR 0x27] @ '' not found in PATH, will use shell''"
  let ?s1 = "s\<lparr>trace := t @ [Logged DEBUG ?msg]\<rparr>"
  have L: "logger DEBUG ?msg (s\<lparr>trace := t\<rparr>) = (Inr (), ?s1)"
    by (simp add: logger_def emit_def)
  obtain r s2 where G: "getUserShell w ?s1 = (r, s2)" by (cases "getUserShell w ?s1")
  have "fst (getUserShell w ?s1) = fst (getUserShell w s)"
    by (rule frame_ignores_trace [OF frame_getUserShell])
  with G U have r: "r = Inr userShell" by simp
  have "fst (isWSL2 w s2) = fst (isWSL2 w ?s1)"
    using keeps_getUserShell [of w] G unfolding keeps_detection_def by (metis snd_conv)
  also have "\<dots> = fst (isWSL2 w s)"
    by (rule frame_ignores_trace [OF frame_isWSL2])
  finally have D: "fst (isWSL2 w s2) = fst (isWSL2 w s)" .
  have "platform s2 = platform ?s1"
    using frame_keeps_platform [OF frame_getUserShell, of w ?s1] G by simp
  then have Pl: "platform s2 = platform s" by simp
  have "fst (getPlatformType w s2) = Inr platformType"
    using P D Pl by (auto simp: getPlatformType_fst split: if_splits)
  then obtain s3 where G3: "getPlatformType w s2 = (Inr platformType, s3)"
    by (cases "getPlatformType w s2") simp
  show ?thesis
    using L G r G3 by (simp add: shellPlan_def seq_def bind_def return_def Let_def)
qed

text \<open>The definitions a concrete run unfolds.\<close>

lemmas run_defs =
  resolveCommand_def foundInPath_def shellPlan_def getUserShell_def getUserShell_win32_def
  getUserShell_unix_def userInfo_shell_def probe_ok_def getPlatformType_def isWSL2_def
  isWSL2_probe_def isWSL2_envFallback_def wslEnvVars_def isInteractiveShellCommand_def
  shells_def interactiveFlags_def
  try_catch_def bind_def seq_def return_def throw_def emit_def logger_def process_platform_def
  set_isWSL2_def existsSync_def readFileSync_def process_env_def spawnSync_def
  str_includes_def endsWith_def trim_def is_space_def sublist_code
  quiet_env_def fresh_def Let_def

lemma no_throw_resolveCommand: "no_throw (resolveCommand w (c # a))"
  by (auto simp: resolveCommand_def Let_def
      intro!: no_throw_intros no_throw_foundInPath no_throw_shellPlan)

lemma isProcessRunning_unix_gen:
  assumes "platform s \<noteq> ''win32''" and "0 < pid"
  shows "fst (isProcessRunning w pid s)
           = Inr (case process_kill w pid (SigNum 0) of
                    None \<Rightarrow> True
                  | Some e \<Rightarrow> err_code e = Some ''EPERM'')"
proof -
  from getPlatformType_not_win32 [OF assms(1), of w] obtain pt s' where
    G: "getPlatformType w s = (Inr pt, s')" and pt: "pt \<noteq> ''win32''"
    by blast
  from G pt assms(2) show ?thesis
    by (auto simp: isProcessRunning_def isProcessRunningUnix_def try_catch_def bind_def seq_def
        kill_def emit_def return_def throw_def split: option.splits)
qed

lemma still_world_dead:
  "fst (isProcessRunning (still_world 0) 4242 (fresh ''linux'')) = Inr False"
  by (simp add: still_world_def quiet_env_def fresh_def esrch_def isProcessRunning_def
      getPlatformType_def isWSL2_def isWSL2_probe_def isWSL2_envFallback_def wslEnvVars_def
      isProcessRunningUnix_def try_catch_def bind_def seq_def kill_def emit_def logger_def
      return_def throw_def process_platform_def set_isWSL2_def existsSync_def process_env_def)

subsection \<open>Decimal text and quoted fields\<close>








lemma quoted_in_unquoted:
  assumes "dquote \<notin> set a"
  shows "\<not> sublist (dquote # d @ [dquote]) a"
proof
  assume "sublist (dquote # d @ [dquote]) a"
  then have "set (dquote # d @ [dquote]) \<subseteq> set a" by (rule set_mono_sublist)
  with assms show False by simp
qed







section \<open>The properties\<close>

subsection \<open>waitForProcessExit\<close>

text \<open>
  C1. The property asks that \<open>waitForProcessExit(pid, 0)\<close> on a pid that is already dead
  resolves to \<open>true\<close>, as the comment above the function promises for a process that has
  exited. The code does not do so. Pid 4242 is dead (signal 0 fails with ESRCH) and the
  clock reads 1000 at every reading: the loop condition
  \<open>Date.now() - startTime < timeoutMs\<close> is \<open>0 < 0\<close> at its first evaluation, the body never
  runs, the pid is never polled, and the call resolves to \<open>false\<close>.
\<close>

theorem waitForProcessExit_zero_dead:
  "fst (isProcessRunning (still_world 0) 4242 (fresh ''linux'')) = Inr False
   \<and> map_option fst (waitForProcessExit still_clock still_world 4242 0 (fresh ''linux''))
       = Some (Inr False)"
proof
  show "fst (isProcessRunning (still_world 0) 4242 (fresh ''linux'')) = Inr False"
    by (rule still_world_dead)
  show "map_option fst (waitForProcessExit still_clock still_world 4242 0 (fresh ''linux''))
       = Some (Inr False)"
    apply (simp add: waitForProcessExit_def date_now_def seq_def bind_def emit_def return_def
        logger_def still_clock_def)
    apply (subst waitLoop.simps)
    apply (simp add: date_now_def seq_def bind_def emit_def return_def logger_def still_clock_def)
    done
qed

subsection \<open>resolveCommand\<close>

text \<open>
  Three runs of \<open>resolveCommand(["bash"])\<close> that do not give a shell-routed
  \<open>-i -c "bash"\<close>. On linux with bash found by \<open>which\<close>: the direct plan. On win32 with
  bash not found and \<open>pwsh\<close> as the user's shell: \<open>-NoLogo -Command "bash"\<close>. On a platform
  the code does not recognise (freebsd) with bash not found: the direct plan.
\<close>

theorem resolveCommand_bash_counterexample:
  "fst (resolveCommand bash_on_path [''bash''] (fresh ''linux''))
     = Inr \<lparr>plan_command = ''bash'', plan_args = [], plan_useShell = False\<rparr>
   \<and> fst (resolveCommand pwsh_env [''bash''] (fresh ''win32''))
     = Inr \<lparr>plan_command = ''pwsh'', plan_args = [''-NoLogo'', ''-Command'', ''bash''],
            plan_useShell = True\<rparr>
   \<and> fst (resolveCommand quiet_env [''bash''] (fresh ''freebsd''))
     = Inr \<lparr>plan_command = ''bash'', plan_args = [], plan_useShell = False\<rparr>"
proof (intro conjI)
  show "fst (resolveCommand bash_on_path [''bash''] (fresh ''linux''))
     = Inr \<lparr>plan_command = ''bash'', plan_args = [], plan_useShell = False\<rparr>"
    by (simp add: run_defs bash_on_path_def)
  show "fst (resolveCommand pwsh_env [''bash''] (fresh ''win32''))
     = Inr \<lparr>plan_command = ''pwsh'', plan_args = [''-NoLogo'', ''-Command'', ''bash''],
            plan_useShell = True\<rparr>"
    by (simp add: run_defs pwsh_env_def)
  show "fst (resolveCommand quiet_env [''bash''] (fresh ''freebsd''))
     = Inr \<lparr>plan_command = ''bash'', plan_args = [], plan_useShell = False\<rparr>"
    by (simp add: run_defs)
qed

text \<open>
  C2, as the code has it. \<open>bash\<close> with no arguments is classified as an interactive shell
  session. With \<open>found\<close> the answer of the lookup on the search path, \<open>userShell\<close> the
  user's shell and \<open>platformType\<close> the detected platform, \<open>resolveCommand(["bash"])\<close>
  returns: the direct plan when bash is found; otherwise the shell-routed plan with
  \<open>-i -c "bash"\<close> on wsl2, linux and darwin, and on win32 when the shell's name contains
  \<open>bash\<close>; on win32 with a PowerShell \<open>-NoLogo -Command "bash"\<close>, with any other shell
  \<open>/C "bash"\<close>; and the direct plan on every other platform.
\<close>

theorem resolveCommand_bash_amended:
  assumes F: "fst (foundInPath w (if platform s = ''win32'' then ''where'' else ''which'') ''bash'' s)
                = Inr found"
    and U: "fst (getUserShell w s) = Inr userShell"
    and P: "fst (getPlatformType w s) = Inr platformType"
  shows "isInteractiveShellCommand ''bash'' []
       \<and> fst (resolveCommand w [''bash''] s) =
           Inr (if found then
                  \<lparr>plan_command = ''bash'', plan_args = [], plan_useShell = False\<rparr>
                else if platformType = ''win32'' then
                  (if str_includes userShell ''bash'' then
                     \<lparr>plan_command = userShell, plan_args = [''-i'', ''-c'', ''bash''],
                      plan_useShell = True\<rparr>
                   else if str_includes userShell ''pwsh'' \<or> str_includes userShell ''powershell''
                   then
                     \<lparr>plan_command = userShell, plan_args = [''-NoLogo'', ''-Command'', ''bash''],
                      plan_useShell = True\<rparr>
                   else
                     \<lparr>plan_command = userShell, plan_args = [''/C'', ''bash''],
                      plan_useShell = True\<rparr>)
                else if platformType = ''wsl2'' \<or> platformType = ''linux''
                        \<or> platformType = ''darwin'' then
                  \<lparr>plan_command = userShell, plan_args = [''-i'', ''-c'', ''bash''],
                   plan_useShell = True\<rparr>
                else \<lparr>plan_command = ''bash'', plan_args = [], plan_useShell = False\<rparr>)"
proof
  show I: "isInteractiveShellCommand ''bash'' []"
    by (simp add: isInteractiveShellCommand_def shells_def)
  let ?which = "if platform s = ''win32'' then ''where'' else ''which''"
  from foundInPath_trace [of w ?which "''bash''" s] obtain r evs where
    T: "foundInPath w ?which ''bash'' s = (r, s\<lparr>trace := trace s @ evs\<rparr>)"
    by blast
  with F have r: "r = Inr found" by simp
  show "fst (resolveCommand w [''bash''] s) =
           Inr (if found then
                  \<lparr>plan_command = ''bash'', plan_args = [], plan_useShell = False\<rparr>
                else if platformType = ''win32'' then
                  (if str_includes userShell ''bash'' then
                     \<lparr>plan_command = userShell, plan_args = [''-i'', ''-c'', ''bash''],
                      plan_useShell = True\<rparr>
                   else if str_includes userShell ''pwsh'' \<or> str_includes userShell ''powershell''
                   then
                     \<lparr>plan_command = userShell, plan_args = [''-NoLogo'', ''-Command'', ''bash''],
                      plan_useShell = True\<rparr>
                   else
                     \<lparr>plan_command = userShell, plan_args = [''/C'', ''bash''],
                      plan_useShell = True\<rparr>)
                else if platformType = ''wsl2'' \<or> platformType = ''linux''
                        \<or> platformType = ''darwin'' then
                  \<lparr>plan_command = userShell, plan_args = [''-i'', ''-c'', ''bash''],
                   plan_useShell = True\<rparr>
                else \<lparr>plan_command = ''bash'', plan_args = [], plan_useShell = False\<rparr>)"
  proof (cases found)
    case True
    with T r show ?thesis
      by (simp add: resolveCommand_def bind_def process_platform_def return_def Let_def)
  next
    case False
    from T r False have "fst (resolveCommand w [''bash''] s)
        = fst (shellPlan w [''bash''] ''bash'' [] (s\<lparr>trace := trace s @ evs\<rparr>))"
      by (simp add: resolveCommand_def bind_def process_platform_def return_def Let_def)
    with shellPlan_result [OF U P, of "[''bash'']" "''bash''" "[]" "trace s @ evs"] I False
    show ?thesis by simp
  qed
qed

theorem resolveCommand_bash_amended_witness:
  "fst (resolveCommand (shell_var_env ''/bin/zsh'') [''bash''] (fresh ''linux''))
     = Inr \<lparr>plan_command = ''/bin/zsh'', plan_args = [''-i'', ''-c'', ''bash''],
            plan_useShell = True\<rparr>
   \<and> fst (resolveCommand (shell_var_env ''/usr/bin/bash'') [''bash''] (fresh ''win32''))
     = Inr \<lparr>plan_command = ''/usr/bin/bash'', plan_args = [''-i'', ''-c'', ''bash''],
            plan_useShell = True\<rparr>
   \<and> fst (resolveCommand (shell_var_env ''cmd.exe'') [''bash''] (fresh ''win32''))
     = Inr \<lparr>plan_command = ''cmd.exe'', plan_args = [''/C'', ''bash''], plan_useShell = True\<rparr>
   \<and> fst (resolveCommand bash_on_path [''bash''] (fresh ''linux''))
     = Inr \<lparr>plan_command = ''bash'', plan_args = [], plan_useShell = False\<rparr>"
proof -
  have f1: "fst (foundInPath (shell_var_env ''/bin/zsh'')
              (if platform (fresh ''linux'') = ''win32'' then ''where'' else ''which'') ''bash''
              (fresh ''linux'')) = Inr False"
    and u1: "fst (getUserShell (shell_var_env ''/bin/zsh'') (fresh ''linux'')) = Inr ''/bin/zsh''"
    and p1: "fst (getPlatformType (shell_var_env ''/bin/zsh'') (fresh ''linux'')) = Inr ''linux''"
    by (simp_all add: run_defs shell_var_env_def)
  have f2: "fst (foundInPath (shell_var_env ''/usr/bin/bash'')
              (if platform (fresh ''win32'') = ''win32'' then ''where'' else ''which'') ''bash''
              (fresh ''win32'')) = Inr False"
    and u2: "fst (getUserShell (shell_var_env ''/usr/bin/bash'') (fresh ''win32''))
               = Inr ''/usr/bin/bash''"
    and p2: "fst (getPlatformType (shell_var_env ''/usr/bin/bash'') (fresh ''win32''))
               = Inr ''win32''"
    by (simp_all add: run_defs shell_var_env_def)
  have f3: "fst (foundInPath (shell_var_env ''cmd.exe'')
              (if platform (fresh ''win32'') = ''win32'' then ''where'' else ''which'') ''bash''
              (fresh ''win32'')) = Inr False"
    and u3: "fst (getUserShell (shell_var_env ''cmd.exe'') (fresh ''win32'')) = Inr ''cmd.exe''"
    and p3: "fst (getPlatformType (shell_var_env ''cmd.exe'') (fresh ''win32'')) = Inr ''win32''"
    by (simp_all add: run_defs shell_var_env_def)
  have f4: "fst (foundInPath bash_on_path
              (if platform (fresh ''linux'') = ''win32'' then ''where'' else ''which'') ''bash''
              (fresh ''linux'')) = Inr True"
    and u4: "fst (getUserShell bash_on_path (fresh ''linux'')) = Inr ''/bin/sh''"
    and p4: "fst (getPlatformType bash_on_path (fresh ''linux'')) = Inr ''linux''"
    by (simp_all add: run_defs bash_on_path_def)
  show ?thesis
    using resolveCommand_bash_amended [OF f1 u1 p1] resolveCommand_bash_amended [OF f2 u2 p2]
      resolveCommand_bash_amended [OF f3 u3 p3] resolveCommand_bash_amended [OF f4 u4 p4]
    by (simp add: str_includes_def sublist_code)
qed

text \<open>
  C7. \<open>resolveCommand\<close> on the empty vector throws \<open>No command provided\<close> from an
  unchanged state (nothing was spawned, read or logged), and the empty vector is the
  only input on which it throws.
\<close>

theorem resolveCommand_raises_iff:
  "resolveCommand w [] s = (Inl (JsError ''No command provided'' None), s)
   \<and> ((\<exists>e. fst (resolveCommand w command s) = Inl e) \<longleftrightarrow> command = [])"
proof
  show "resolveCommand w [] s = (Inl (JsError ''No command provided'' None), s)"
    by (simp add: resolveCommand_def throw_def)
  show "(\<exists>e. fst (resolveCommand w command s) = Inl e) \<longleftrightarrow> command = []"
  proof (cases command)
    case Nil
    then show ?thesis by (simp add: resolveCommand_def throw_def)
  next
    case (Cons c a)
    from no_throw_result [OF no_throw_resolveCommand, of w c a s] Cons show ?thesis
      by auto
  qed
qed

theorem resolveCommand_raises_iff_witness:
  "resolveCommand quiet_env [] (fresh ''linux'')
     = (Inl (JsError ''No command provided'' None), fresh ''linux'')
   \<and> \<not> (\<exists>e. fst (resolveCommand quiet_env [''ls'', ''-la''] (fresh ''linux'')) = Inl e)"
  using resolveCommand_raises_iff [of quiet_env "fresh ''linux''" "[''ls'', ''-la'']"]
  by simp

subsection \<open>Platform detection\<close>

text \<open>
  C3. On Linux, at the first detection, with \<open>/proc/version\<close> present and readable and
  its lower-cased text containing a vendor marker (\<open>microsoft\<close> or \<open>wsl\<close>): if the text
  contains \<open>wsl2\<close>, \<open>getPlatformType\<close> returns \<open>wsl2\<close>; if it does not, the memo is set to
  false, the warning that WSL1 is not supported is logged, and \<open>getPlatformType\<close> returns
  \<open>linux\<close>.
\<close>

theorem getPlatformType_wsl:
  assumes "platform s = ''linux''" and "wsl2_cache s = None"
    and "exists_file w ''/proc/version''" and "read_file w ''/proc/version'' = Inr raw"
    and "str_includes (toLowerCase raw) ''microsoft'' \<or> str_includes (toLowerCase raw) ''wsl''"
  shows "(str_includes (toLowerCase raw) ''wsl2'' \<longrightarrow>
            fst (getPlatformType w s) = Inr ''wsl2''
          \<and> wsl2_cache (snd (getPlatformType w s)) = Some True)
       \<and> (\<not> str_includes (toLowerCase raw) ''wsl2'' \<longrightarrow>
            fst (getPlatformType w s) = Inr ''linux''
          \<and> wsl2_cache (snd (getPlatformType w s)) = Some False
          \<and> Logged WARN ''WSL1 detected - WSL1 is not supported. Please upgrade to WSL2.''
              \<in> set (trace (snd (getPlatformType w s))))"
  using assms
  by (auto simp: getPlatformType_def isWSL2_def isWSL2_probe_def try_catch_def bind_def seq_def
      set_isWSL2_def return_def logger_def emit_def process_platform_def existsSync_def
      readFileSync_def Let_def)

theorem getPlatformType_wsl_witness:
  "fst (getPlatformType (proc_version_env ''Linux version 5.15.90.1-microsoft-standard-WSL2'')
          (fresh ''linux'')) = Inr ''wsl2''
   \<and> fst (getPlatformType (proc_version_env ''Linux version 4.4.0-19041-Microsoft'')
          (fresh ''linux'')) = Inr ''linux''
   \<and> Logged WARN ''WSL1 detected - WSL1 is not supported. Please upgrade to WSL2.''
        \<in> set (trace (snd (getPlatformType (proc_version_env ''Linux version 4.4.0-19041-Microsoft'')
          (fresh ''linux''))))"
proof -
  let ?w2 = "proc_version_env ''Linux version 5.15.90.1-microsoft-standard-WSL2''"
  let ?w1 = "proc_version_env ''Linux version 4.4.0-19041-Microsoft''"
  have a: "platform (fresh ''linux'') = ''linux''" and b: "wsl2_cache (fresh ''linux'') = None"
    by (simp_all add: fresh_def)
  have e2: "exists_file ?w2 ''/proc/version''" and e1: "exists_file ?w1 ''/proc/version''"
    by (simp_all add: proc_version_env_def)
  have r2: "read_file ?w2 ''/proc/version'' = Inr ''Linux version 5.15.90.1-microsoft-standard-WSL2''"
    and r1: "read_file ?w1 ''/proc/version'' = Inr ''Linux version 4.4.0-19041-Microsoft''"
    by (simp_all add: proc_version_env_def)
  have v2: "str_includes (toLowerCase ''Linux version 5.15.90.1-microsoft-standard-WSL2'') ''microsoft''
          \<or> str_includes (toLowerCase ''Linux version 5.15.90.1-microsoft-standard-WSL2'') ''wsl''"
    by (simp add: toLowerCase_def lower_char_def str_includes_def sublist_code)
  have v1: "str_includes (toLowerCase ''Linux version 4.4.0-19041-Microsoft'') ''microsoft''
          \<or> str_includes (toLowerCase ''Linux version 4.4.0-19041-Microsoft'') ''wsl''"
    by (simp add: toLowerCase_def lower_char_def str_includes_def sublist_code)
  have m2: "str_includes (toLowerCase ''Linux version 5.15.90.1-microsoft-standard-WSL2'') ''wsl2''"
    by (simp add: toLowerCase_def lower_char_def str_includes_def sublist_code)
  have m1: "\<not> str_includes (toLowerCase ''Linux version 4.4.0-19041-Microsoft'') ''wsl2''"
    by (simp add: toLowerCase_def lower_char_def str_includes_def sublist_code)
  show ?thesis
    using getPlatformType_wsl [OF a b e2 r2 v2] getPlatformType_wsl [OF a b e1 r1 v1] m2 m1
    by simp
qed

text \<open>
  C4. A second call of \<open>getPlatformType\<close>, in whatever world, returns what the first
  returned and leaves the state as the first left it: no file is read, no variable is
  looked up, nothing is logged. Hence in every sequence of calls all results equal the
  first and the state after the whole sequence is the state after the first call.
\<close>

theorem getPlatformType_idempotent:
  "getPlatformType w2 (snd (getPlatformType w1 s)) = getPlatformType w1 s
   \<and> getPlatformType_calls (w1 # ws) s =
       (replicate (Suc (length ws)) (fst (getPlatformType w1 s)), snd (getPlatformType w1 s))"
proof -
  obtain r s1 where G: "getPlatformType w1 s = (r, s1)" by (cases "getPlatformType w1 s")
  have F: "\<And>w'. getPlatformType w' s1 = (r, s1)"
    by (rule getPlatformType_fixed [OF G])
  from G F getPlatformType_calls_fixed [of s1 r ws, OF F] show ?thesis by simp
qed

theorem getPlatformType_idempotent_witness:
  "getPlatformType quiet_env
       (snd (getPlatformType (proc_version_env ''Linux version 5.15.90.1-microsoft-standard-WSL2'')
                (fresh ''linux'')))
     = getPlatformType (proc_version_env ''Linux version 5.15.90.1-microsoft-standard-WSL2'')
         (fresh ''linux'')"
  using getPlatformType_idempotent
    [of quiet_env "proc_version_env ''Linux version 5.15.90.1-microsoft-standard-WSL2''"
        "fresh ''linux''" "[]"]
  by simp

subsection \<open>Liveness\<close>

text \<open>
  C5. For a pid that is zero or negative, \<open>isProcessRunning\<close> returns \<open>false\<close> from an
  unchanged state: no utility is spawned and no signal is sent. For every integer pid
  it returns a boolean and does not throw.
\<close>

theorem isProcessRunning_safe:
  "(pid \<le> 0 \<longrightarrow> isProcessRunning w pid s = (Inr False, s))
   \<and> (\<exists>b. fst (isProcessRunning w pid s) = Inr b)"
proof
  show "pid \<le> 0 \<longrightarrow> isProcessRunning w pid s = (Inr False, s)"
    by (simp add: isProcessRunning_def return_def)
  show "\<exists>b. fst (isProcessRunning w pid s) = Inr b"
    by (rule no_throw_result [OF no_throw_isProcessRunning])
qed

theorem isProcessRunning_safe_witness:
  "isProcessRunning quiet_env (-3) (fresh ''win32'') = (Inr False, fresh ''win32'')
   \<and> (\<exists>b. fst (isProcessRunning quiet_env 4242 (fresh ''win32'')) = Inr b)"
  using isProcessRunning_safe [of "-3" quiet_env "fresh ''win32''"]
    isProcessRunning_safe [of 4242 quiet_env "fresh ''win32''"]
  by simp

text \<open>
  C6. Where \<open>process.platform\<close> is not \<open>win32\<close> and the pid is positive,
  \<open>isProcessRunning\<close> returns \<open>true\<close> when the delivery of signal 0 succeeds, and when it
  fails it returns \<open>true\<close> exactly for the error code \<open>EPERM\<close>: \<open>ESRCH\<close> and every other
  failure give \<open>false\<close>.
\<close>

theorem isProcessRunning_unix:
  assumes "platform s \<noteq> ''win32''" and "0 < pid"
  shows "(process_kill w pid (SigNum 0) = None \<longrightarrow> fst (isProcessRunning w pid s) = Inr True)
       \<and> (\<forall>e. process_kill w pid (SigNum 0) = Some e \<longrightarrow>
             fst (isProcessRunning w pid s) = Inr (err_code e = Some ''EPERM''))"
proof -
  from getPlatformType_not_win32 [OF assms(1), of w] obtain pt s' where
    G: "getPlatformType w s = (Inr pt, s')" and pt: "pt \<noteq> ''win32''"
    by blast
  from G pt assms(2) show ?thesis
    by (auto simp: isProcessRunning_def isProcessRunningUnix_def try_catch_def bind_def seq_def
        kill_def emit_def return_def throw_def split: option.splits)
qed

theorem isProcessRunning_unix_witness:
  "platform (fresh ''linux'') \<noteq> ''win32'' \<and> (0::int) < 4242
   \<and> fst (isProcessRunning quiet_env 4242 (fresh ''linux'')) = Inr False
   \<and> fst (isProcessRunning (quiet_env\<lparr>process_kill := (\<lambda>_ _. Some eperm)\<rparr>) 4242 (fresh ''linux'')) = Inr True
   \<and> fst (isProcessRunning (quiet_env\<lparr>process_kill := (\<lambda>_ _. None)\<rparr>) 4242 (fresh ''linux'')) = Inr True"
proof -
  have p: "platform (fresh ''linux'') \<noteq> ''win32''" by (simp add: fresh_def)
  have q: "(0::int) < 4242" by simp
  show ?thesis
    using isProcessRunning_unix [OF p q, of quiet_env]
      isProcessRunning_unix [OF p q, of "quiet_env\<lparr>process_kill := (\<lambda>_ _. Some eperm)\<rparr>"]
      isProcessRunning_unix [OF p q, of "quiet_env\<lparr>process_kill := (\<lambda>_ _. None)\<rparr>"]
    by (simp add: quiet_env_def esrch_def eperm_def fresh_def)
qed




text \<open>
  C9. \<open>getProcessInfo\<close> returns \<open>null\<close> exactly when \<open>isProcessRunning\<close>, from the same
  state and in the same world, returns \<open>false\<close>; otherwise it returns the record with
  the queried pid and \<open>exists\<close> true. Its effects are those of \<open>isProcessRunning\<close>.
\<close>

theorem getProcessInfo_spec:
  "fst (getProcessInfo w pid s) =
     Inr (if fst (isProcessRunning w pid s) = Inr False then None
          else Some \<lparr>info_pid = pid, info_exists = True\<rparr>)
   \<and> snd (getProcessInfo w pid s) = snd (isProcessRunning w pid s)"
proof -
  from no_throw_isProcessRunning [of w pid] obtain b s' where
    "isProcessRunning w pid s = (Inr b, s')"
    unfolding no_throw_def by blast
  then show ?thesis
    by (simp add: getProcessInfo_def bind_def return_def)
qed

theorem getProcessInfo_spec_witness:
  "fst (getProcessInfo quiet_env 4242 (fresh ''linux'')) = Inr None
   \<and> fst (getProcessInfo (quiet_env\<lparr>process_kill := (\<lambda>_ _. None)\<rparr>) 4242 (fresh ''linux''))
       = Inr (Some \<lparr>info_pid = 4242, info_exists = True\<rparr>)"
proof -
  have p: "platform (fresh ''linux'') \<noteq> ''win32''" by (simp add: fresh_def)
  have q: "(0::int) < 4242" by simp
  have "fst (isProcessRunning quiet_env 4242 (fresh ''linux'')) = Inr False"
    using isProcessRunning_unix_gen [OF p q, of quiet_env]
    by (simp add: quiet_env_def esrch_def)
  moreover
  have "fst (isProcessRunning (quiet_env\<lparr>process_kill := (\<lambda>_ _. None)\<rparr>) 4242 (fresh ''linux''))
          = Inr True"
    using isProcessRunning_unix_gen [OF p q, of "quiet_env\<lparr>process_kill := (\<lambda>_ _. None)\<rparr>"]
    by (simp add: quiet_env_def)
  ultimately show ?thesis
    using getProcessInfo_spec [of quiet_env 4242 "fresh ''linux''"]
      getProcessInfo_spec [of "quiet_env\<lparr>process_kill := (\<lambda>_ _. None)\<rparr>" 4242 "fresh ''linux''"]
    by simp
qed

subsection \<open>Termination of a process\<close>

text \<open>
  C10. For a pid that is zero or negative and any signal, \<open>killProcess\<close> returns \<open>false\<close>
  from an unchanged state: no signal is delivered, \<open>taskkill\<close> is not spawned, nothing is
  logged.
\<close>

theorem killProcess_nonpositive:
  "pid \<le> 0 \<Longrightarrow> killProcess w pid sig s = (Inr False, s)"
  by (simp add: killProcess_def return_def)

theorem killProcess_nonpositive_witness:
  "(0::int) \<le> 0 \<and> killProcess quiet_env 0 (SigName ''SIGTERM'') (fresh ''linux'') = (Inr False, fresh ''linux'')
   \<and> (-7::int) \<le> 0 \<and> killProcess quiet_env (-7) (SigNum 9) (fresh ''win32'') = (Inr False, fresh ''win32'')"
  using killProcess_nonpositive [of 0 quiet_env "SigName ''SIGTERM''" "fresh ''linux''"]
    killProcess_nonpositive [of "-7" quiet_env "SigNum 9" "fresh ''win32''"]
  by simp

end
